theory Spec2Isabelle
  imports Main
begin

section \<open>The typed proxy layer of \<open>app/src/ui/main-process-proxy.ts\<close>\<close>

text \<open>
  The file builds callables (proxies) over a string-keyed inter-process transport.
  The transport itself, the module \<open>lib/ipc-renderer\<close>, is imported by the file and is
  not part of it: here it is a parameter of every operation.
\<close>

subsection \<open>JavaScript values\<close>

text \<open>
  The primitive values an \<open>Error\<close>'s fields are tested and coerced on. Numbers, symbols
  and big integers are left out: the \<open>Error\<close> interface declares \<open>name\<close> and \<open>message\<close>
  as strings and \<open>stack\<close> as an optional string.
\<close>

datatype prim = Undefined | Null | Boolean bool | Str string

text \<open>The fields of an \<open>Error\<close> object that \<open>getIpcFriendlyError\<close> reads.\<close>

record Error =
  message :: prim
  name :: prim
  stack :: prim

text \<open>
  What crosses the process boundary as an argument: a primitive, a plain object (its own
  properties in order), or an \<open>Error\<close> object.
\<close>

datatype jsval =
  Prim prim
| Object "(string \<times> jsval) list"
| ErrorObject Error

text \<open>ToBoolean on primitives: what \<open>||\<close> tests.\<close>

fun truthy :: "prim \<Rightarrow> bool" where
  "truthy Undefined = False"
| "truthy Null = False"
| "truthy (Boolean b) = b"
| "truthy (Str s) = (s \<noteq> [])"

text \<open>ToString on primitives: what a template literal \<open>`${v}`\<close> yields.\<close>

fun ToString :: "prim \<Rightarrow> string" where
  "ToString Undefined = ''undefined''"
| "ToString Null = ''null''"
| "ToString (Boolean b) = (if b then ''true'' else ''false'')"
| "ToString (Str s) = s"

text \<open>
  \<open>Error.prototype.toString\<close>, which \<open>`${error}`\<close> calls on an \<open>Error\<close> object that does
  not override it: an undefined name reads as \<open>Error\<close>, an undefined message as the
  empty string, and the two are joined by a colon and a space unless one of them is
  empty.
\<close>

definition Error_toString :: "Error \<Rightarrow> string" where
  "Error_toString e =
     (let nm = (if name e = Undefined then ''Error'' else ToString (name e));
          msg = (if message e = Undefined then [] else ToString (message e))
      in if nm = [] then msg else if msg = [] then nm else nm @ '': '' @ msg)"

text \<open>The operator \<open>a || b\<close> on primitives.\<close>

definition js_or :: "prim \<Rightarrow> prim \<Rightarrow> prim" where
  "js_or a b = (if truthy a then a else b)"

text \<open>
  \<open>Array.prototype.slice(start, end)\<close>: a negative index counts from the end of the
  array, and both indices are clamped to the array.
\<close>

definition slice :: "'a list \<Rightarrow> int \<Rightarrow> int \<Rightarrow> 'a list" where
  "slice xs start fin =
     (let len = int (length xs);
          k = (if start < 0 then max (len + start) 0 else min start len);
          final = (if fin < 0 then max (len + fin) 0 else min fin len)
      in take (nat (final - k)) (drop (nat k) xs))"

subsection \<open>The transport\<close>

type_synonym channel = string

text \<open>
  How a promise settles: it resolves with a payload, fails with a failure, or stays
  pending for ever.
\<close>

datatype ('v, 'e) promise = Resolved 'v | Rejected 'e | Pending

text \<open>
  The primitives of \<open>lib/ipc-renderer\<close> that the file calls, over the state \<open>'s\<close> of the
  other process and of the bus. Whatever \<open>send\<close> evaluates to has the type \<open>'r\<close> (nothing,
  when \<open>'r\<close> is \<open>unit\<close>); \<open>invoke\<close> gives a promise, \<open>sendSync\<close> the receiver's reply.
\<close>

record ('a, 'r, 'v, 'e, 's) transport =
  send :: "channel \<Rightarrow> 'a list \<Rightarrow> 's \<Rightarrow> 'r \<times> 's"
  invoke :: "channel \<Rightarrow> 'a list \<Rightarrow> 's \<Rightarrow> ('v, 'e) promise \<times> 's"
  sendSync :: "channel \<Rightarrow> 'a list \<Rightarrow> 's \<Rightarrow> 'v \<times> 's"

text \<open>One call of a transport primitive: its channel name and the arguments after it.\<close>

datatype 'a ipc_call =
  Send channel "'a list"
| Invoke channel "'a list"
| SendSync channel "'a list"

fun ipc_channel :: "'a ipc_call \<Rightarrow> channel" where
  "ipc_channel (Send c as) = c"
| "ipc_channel (Invoke c as) = c"
| "ipc_channel (SendSync c as) = c"

fun ipc_args :: "'a ipc_call \<Rightarrow> 'a list" where
  "ipc_args (Send c as) = as"
| "ipc_args (Invoke c as) = as"
| "ipc_args (SendSync c as) = as"

fun is_Send :: "'a ipc_call \<Rightarrow> bool" where
  "is_Send (Send c as) = True"
| "is_Send _ = False"

fun is_Invoke :: "'a ipc_call \<Rightarrow> bool" where
  "is_Invoke (Invoke c as) = True"
| "is_Invoke _ = False"

fun is_SendSync :: "'a ipc_call \<Rightarrow> bool" where
  "is_SendSync (SendSync c as) = True"
| "is_SendSync _ = False"

text \<open>
  The renderer's view of the world: every transport call made so far, oldest first, and
  the state behind the transport.
\<close>

record ('a, 's) world =
  calls :: "'a ipc_call list"
  remote :: 's

text \<open>
  Modelled from the spec: the function \<open>send\<close> of the module \<open>lib/ipc-renderer\<close>, which
  is not among the sources. It runs the transport's one-way primitive on the state
  behind the transport, without waiting for the receiver, and is recorded in \<open>calls\<close>.
\<close>

definition ipcRenderer_send ::
  "('a, 'r, 'v, 'e, 's) transport \<Rightarrow> channel \<Rightarrow> 'a list \<Rightarrow> ('a, 's) world
     \<Rightarrow> 'r \<times> ('a, 's) world" where
  "ipcRenderer_send t c as w =
     (case send t c as (remote w) of
        (r, s') \<Rightarrow> (r, w\<lparr>calls := calls w @ [Send c as], remote := s'\<rparr>))"

text \<open>
  Modelled from the spec: the function \<open>invoke\<close> of the module \<open>lib/ipc-renderer\<close>,
  which is not among the sources. It runs the transport's request-response primitive,
  is recorded in \<open>calls\<close>, and returns the promise of the reply.
\<close>

definition ipcRenderer_invoke ::
  "('a, 'r, 'v, 'e, 's) transport \<Rightarrow> channel \<Rightarrow> 'a list \<Rightarrow> ('a, 's) world
     \<Rightarrow> ('v, 'e) promise \<times> ('a, 's) world" where
  "ipcRenderer_invoke t c as w =
     (case invoke t c as (remote w) of
        (p, s') \<Rightarrow> (p, w\<lparr>calls := calls w @ [Invoke c as], remote := s'\<rparr>))"

text \<open>
  Modelled from the spec: the function \<open>sendSync\<close> of the module \<open>lib/ipc-renderer\<close>,
  which is not among the sources. It runs the transport's blocking primitive, is
  recorded in \<open>calls\<close>, and returns, with the receiver's reply, once the receiver has
  processed the message.
\<close>

definition ipcRenderer_sendSync ::
  "('a, 'r, 'v, 'e, 's) transport \<Rightarrow> channel \<Rightarrow> 'a list \<Rightarrow> ('a, 's) world
     \<Rightarrow> 'v \<times> ('a, 's) world" where
  "ipcRenderer_sendSync t c as w =
     (case sendSync t c as (remote w) of
        (r, s') \<Rightarrow> (r, w\<lparr>calls := calls w @ [SendSync c as], remote := s'\<rparr>))"

subsection \<open>The proxy builders\<close>

text \<open>
  \<open>invokeProxy(channel, numArgs)\<close> returns the closure
  \<open>(...args) => { args = args.length !== numArgs ? args.slice(0, numArgs) : args;
  return ipcRenderer.invoke(channel, ...args) }\<close>. The closure is the partial application
  to the channel and the count; \<open>numArgs\<close> is a parameter count, a natural number.
\<close>

definition invokeProxy ::
  "('a, 'r, 'v, 'e, 's) transport \<Rightarrow> channel \<Rightarrow> nat \<Rightarrow> 'a list \<Rightarrow> ('a, 's) world
     \<Rightarrow> ('v, 'e) promise \<times> ('a, 's) world" where
  "invokeProxy t channel numArgs args w =
     (let args' = (if length args \<noteq> numArgs then slice args 0 (int numArgs) else args)
      in ipcRenderer_invoke t channel args' w)"

text \<open>
  \<open>sendProxy(channel, numArgs)\<close> returns the closure
  \<open>(...args) => { args = args.length !== numArgs ? args.slice(0, numArgs) : args;
  ipcRenderer.send(channel, ...args) }\<close>, which has no \<open>return\<close>: what \<open>send\<close> evaluates
  to is dropped and a call evaluates to \<open>undefined\<close>.
\<close>

definition sendProxy ::
  "('a, 'r, 'v, 'e, 's) transport \<Rightarrow> channel \<Rightarrow> nat \<Rightarrow> 'a list \<Rightarrow> ('a, 's) world
     \<Rightarrow> prim \<times> ('a, 's) world" where
  "sendProxy t channel numArgs args w =
     (let args' = (if length args \<noteq> numArgs then slice args 0 (int numArgs) else args)
      in (Undefined, snd (ipcRenderer_send t channel args' w)))"

subsection \<open>The bindings the claims use\<close>

definition updateMenuState
  :: "('a, 'r, 'v, 'e, 's) transport \<Rightarrow> 'a list \<Rightarrow> ('a, 's) world \<Rightarrow> prim \<times> ('a, 's) world" where
  "updateMenuState t = sendProxy t ''update-menu-state'' 1"

definition showItemInFolder
  :: "('a, 'r, 'v, 'e, 's) transport \<Rightarrow> 'a list \<Rightarrow> ('a, 's) world \<Rightarrow> prim \<times> ('a, 's) world" where
  "showItemInFolder t = sendProxy t ''show-item-in-folder'' 1"

definition focusWindow
  :: "('a, 'r, 'v, 'e, 's) transport \<Rightarrow> 'a list \<Rightarrow> ('a, 's) world \<Rightarrow> prim \<times> ('a, 's) world" where
  "focusWindow t = sendProxy t ''focus-window'' 0"

definition isWindowFocused
  :: "('a, 'r, 'v, 'e, 's) transport \<Rightarrow> 'a list \<Rightarrow> ('a, 's) world
       \<Rightarrow> ('v, 'e) promise \<times> ('a, 's) world" where
  "isWindowFocused t = invokeProxy t ''is-window-focused'' 0"

definition openExternal
  :: "('a, 'r, 'v, 'e, 's) transport \<Rightarrow> 'a list \<Rightarrow> ('a, 's) world
       \<Rightarrow> ('v, 'e) promise \<times> ('a, 's) world" where
  "openExternal t = invokeProxy t ''open-external'' 1"

text \<open>
  \<open>sendWillQuitSync() { ipcRenderer.sendSync('will-quit') }\<close>: the reply is dropped and
  nothing is returned.
\<close>

definition sendWillQuitSync ::
  "('a, 'r, 'v, 'e, 's) transport \<Rightarrow> ('a, 's) world \<Rightarrow> prim \<times> ('a, 's) world" where
  "sendWillQuitSync t w = (Undefined, snd (ipcRenderer_sendSync t ''will-quit'' [] w))"

text \<open>
  \<open>getIpcFriendlyError(error)\<close>: the object literal with the three properties
  \<open>message: error.message || `${error}`\<close>, \<open>name: error.name || `${error.name}`\<close> and
  \<open>stack: error.stack || undefined\<close>.
\<close>

definition getIpcFriendlyError :: "Error \<Rightarrow> jsval" where
  "getIpcFriendlyError error =
     Object
       [(''message'', Prim (js_or (message error) (Str (Error_toString error)))),
        (''name'', Prim (js_or (name error) (Str (ToString (name error))))),
        (''stack'', Prim (js_or (stack error) Undefined))]"

text \<open>
  The two proxies behind the error reports, \<open>_reportUncaughtException\<close> and
  \<open>_sendErrorReport\<close> in the file, and the functions that call them with the payload.
\<close>

definition reportUncaughtException_proxy
  :: "(jsval, 'r, 'v, 'e, 's) transport \<Rightarrow> jsval list \<Rightarrow> (jsval, 's) world
       \<Rightarrow> prim \<times> (jsval, 's) world" where
  "reportUncaughtException_proxy t = sendProxy t ''uncaught-exception'' 1"

definition reportUncaughtException ::
  "(jsval, 'r, 'v, 'e, 's) transport \<Rightarrow> Error \<Rightarrow> (jsval, 's) world \<Rightarrow> prim \<times> (jsval, 's) world" where
  "reportUncaughtException t error w =
     (Undefined, snd (reportUncaughtException_proxy t [getIpcFriendlyError error] w))"

definition sendErrorReport_proxy
  :: "(jsval, 'r, 'v, 'e, 's) transport \<Rightarrow> jsval list \<Rightarrow> (jsval, 's) world
       \<Rightarrow> prim \<times> (jsval, 's) world" where
  "sendErrorReport_proxy t = sendProxy t ''send-error-report'' 3"

definition sendErrorReport ::
  "(jsval, 'r, 'v, 'e, 's) transport \<Rightarrow> Error \<Rightarrow> jsval \<Rightarrow> bool \<Rightarrow> (jsval, 's) world
     \<Rightarrow> prim \<times> (jsval, 's) world" where
  "sendErrorReport t error extra nonFatal w =
     (Undefined,
      snd (sendErrorReport_proxy t [getIpcFriendlyError error, extra, Prim (Boolean nonFatal)] w))"

subsection \<open>A send that may throw\<close>

text \<open>
  How a call completes: normally, with a value, or by throwing.
\<close>

datatype ('x, 'a) completion = Normal 'a | Throw 'x

text \<open>
  The one-way primitive as a call that may throw, as any call may and as the doc comment
  of \<open>sendProxy\<close> says of what is sent over the boundary (\<open>can lead to runtime errors\<close>).
\<close>

type_synonym ('a, 'x, 'r, 's) send_primitive =
  "channel \<Rightarrow> 'a list \<Rightarrow> 's \<Rightarrow> ('x, 'r) completion \<times> 's"

text \<open>
  Modelled from the spec: the function \<open>send\<close> of the module \<open>lib/ipc-renderer\<close>, which
  is not among the sources, with the way the call completes. It runs the one-way
  primitive on the state behind the transport and is recorded in \<open>calls\<close>, whether the
  primitive returns or throws.
\<close>

definition ipcRenderer_send_call ::
  "('a, 'x, 'r, 's) send_primitive \<Rightarrow> channel \<Rightarrow> 'a list \<Rightarrow> ('a, 's) world
     \<Rightarrow> ('x, 'r) completion \<times> ('a, 's) world" where
  "ipcRenderer_send_call sp c as w =
     (case sp c as (remote w) of
        (k, s') \<Rightarrow> (k, w\<lparr>calls := calls w @ [Send c as], remote := s'\<rparr>))"

text \<open>
  The closure of \<open>sendProxy\<close> with the way it completes. Its body is the guard and the
  call of \<open>send\<close>, with no \<open>try\<close> around it and no \<open>return\<close>: when \<open>send\<close> returns, its
  value is dropped and the closure returns \<open>undefined\<close>; when \<open>send\<close> throws, the closure
  throws the same.
\<close>

definition sendProxy_call ::
  "('a, 'x, 'r, 's) send_primitive \<Rightarrow> channel \<Rightarrow> nat \<Rightarrow> 'a list \<Rightarrow> ('a, 's) world
     \<Rightarrow> ('x, prim) completion \<times> ('a, 's) world" where
  "sendProxy_call sp channel numArgs args w =
     (let args' = (if length args \<noteq> numArgs then slice args 0 (int numArgs) else args)
      in case ipcRenderer_send_call sp channel args' w of
           (Normal r, w') \<Rightarrow> (Normal Undefined, w')
         | (Throw x, w') \<Rightarrow> (Throw x, w'))"

text \<open>The \<open>send\<close> of a transport of the first kind, which always returns.\<close>

definition returning :: "('a, 'r, 'v, 'e, 's) transport \<Rightarrow> ('a, 'x, 'r, 's) send_primitive" where
  "returning t = (\<lambda>c as s. case send t c as s of (r, s') \<Rightarrow> (Normal r, s'))"

subsection \<open>Running a proxy several times\<close>

text \<open>The same callable called once per argument list, one call after the other.\<close>

fun call_each :: "('a list \<Rightarrow> 'w \<Rightarrow> 'r \<times> 'w) \<Rightarrow> 'a list list \<Rightarrow> 'w \<Rightarrow> 'w" where
  "call_each p [] w = w"
| "call_each p (as # rest) w = call_each p rest (snd (p as w))"

subsection \<open>Observing a world\<close>

text \<open>The argument list of the latest transport call, and the calls made since a world.\<close>

definition transmitted :: "('a, 's) world \<Rightarrow> 'a list" where
  "transmitted w = ipc_args (last (calls w))"

definition calls_since :: "('a, 's) world \<Rightarrow> ('a, 's) world \<Rightarrow> 'a ipc_call list" where
  "calls_since w w' = drop (length (calls w)) (calls w')"

text \<open>The own property names of a plain object, and the value of one of them.\<close>

fun own_keys :: "jsval \<Rightarrow> string list" where
  "own_keys (Object fs) = map fst fs"
| "own_keys _ = []"

fun get_field :: "jsval \<Rightarrow> string \<Rightarrow> jsval option" where
  "get_field (Object fs) k = map_of fs k"
| "get_field _ k = None"

fun is_plain_object :: "jsval \<Rightarrow> bool" where
  "is_plain_object (Object fs) = True"
| "is_plain_object _ = False"

subsection \<open>A transport to evaluate on\<close>

text \<open>
  A transport whose state counts the messages it has carried. Its \<open>send\<close> tells
  whether the message was delivered, and delivers on \<open>focus-window\<close> only. It answers
  \<open>is-window-focused\<close> with \<open>{focused: true}\<close> and fails every other request as a
  disconnected process would.
\<close>

definition bus :: "(jsval, bool, jsval, string, nat) transport" where
  "bus =
     \<lparr>send = (\<lambda>c as s. (c = ''focus-window'', Suc s)),
      invoke = (\<lambda>c as s.
         (if c = ''is-window-focused''
          then Resolved (Object [(''focused'', Prim (Boolean True))])
          else Rejected ''process disconnected'', Suc s)),
      sendSync = (\<lambda>c as s. (Prim Undefined, Suc s))\<rparr>"

definition start :: "(jsval, nat) world" where
  "start = \<lparr>calls = [], remote = 0\<rparr>"

text \<open>
  A one-way primitive that carries a message on \<open>focus-window\<close> and throws on every
  other channel.
\<close>

definition failing_send :: "(jsval, string, unit, nat) send_primitive" where
  "failing_send =
     (\<lambda>c as s. (if c = ''focus-window'' then Normal () else Throw ''message not sent'', Suc s))"

section \<open>Properties\<close>

subsection \<open>Auxiliary facts\<close>

lemma slice_prefix: "slice xs 0 (int n) = take n xs"
  by (simp add: slice_def Let_def min_def)

lemma guard_take:
  "(if length xs \<noteq> n then slice xs 0 (int n) else xs) = take n xs"
  by (simp add: slice_prefix)

lemma sendProxy_unfold:
  "sendProxy t c n as w =
     (Undefined, w\<lparr>calls := calls w @ [Send c (take n as)],
                   remote := snd (send t c (take n as) (remote w))\<rparr>)"
  by (simp add: sendProxy_def ipcRenderer_send_def guard_take Let_def split: prod.split)

lemma invokeProxy_unfold:
  "invokeProxy t c n as w =
     (fst (invoke t c (take n as) (remote w)),
      w\<lparr>calls := calls w @ [Invoke c (take n as)],
        remote := snd (invoke t c (take n as) (remote w))\<rparr>)"
  by (simp add: invokeProxy_def ipcRenderer_invoke_def guard_take Let_def split: prod.split)

lemma transmitted_sendProxy: "transmitted (snd (sendProxy t c n as w)) = take n as"
  by (simp add: sendProxy_unfold transmitted_def)

lemma transmitted_invokeProxy: "transmitted (snd (invokeProxy t c n as w)) = take n as"
  by (simp add: invokeProxy_unfold transmitted_def)

subsection \<open>The arity guard\<close>

text \<open>
  C1 (as stated, refuted). The claim says the transmitted list always has the declared
  length. A proxy of arity 1 called with no argument transmits no argument: the guard
  slices and never pads. Shown on \<open>updateMenuState\<close> (built by \<open>sendProxy\<close>) and on
  \<open>openExternal\<close> (built by \<open>invokeProxy\<close>).
\<close>

theorem transmitted_length_counterexample:
  "length (transmitted (snd (updateMenuState bus [] start))) \<noteq> 1
   \<and> length (transmitted (snd (openExternal bus [] start))) \<noteq> 1"
  by (simp add: updateMenuState_def openExternal_def transmitted_sendProxy
        transmitted_invokeProxy del: One_nat_def)

text \<open>
  C1 (amended). For every proxy built by \<open>invokeProxy\<close> or \<open>sendProxy\<close> with declared
  arity \<open>n\<close> and every argument list, the transmitted list has length
  \<open>min (length args) n\<close>: exactly \<open>n\<close> when the caller supplies \<open>n\<close> arguments or more,
  and the caller's own count when it supplies fewer.
\<close>

theorem transmitted_length:
  "length (transmitted (snd (sendProxy t c n as w))) = min (length as) n
   \<and> length (transmitted (snd (invokeProxy t c n as w))) = min (length as) n"
  by (simp add: transmitted_sendProxy transmitted_invokeProxy)

text \<open>
  C2. When the caller supplies at least \<open>n\<close> arguments, both kinds of proxy transmit the
  first \<open>n\<close> of them, a list of length \<open>n\<close>; when it supplies exactly \<open>n\<close>, the list is its
  own, unchanged.
\<close>

theorem transmitted_prefix:
  assumes "n \<le> length as"
  shows "transmitted (snd (sendProxy t c n as w)) = take n as
         \<and> transmitted (snd (invokeProxy t c n as w)) = take n as
         \<and> length (transmitted (snd (sendProxy t c n as w))) = n
         \<and> length (transmitted (snd (invokeProxy t c n as w))) = n
         \<and> (length as = n \<longrightarrow>
              transmitted (snd (sendProxy t c n as w)) = as
              \<and> transmitted (snd (invokeProxy t c n as w)) = as)"
  using assms by (simp add: transmitted_sendProxy transmitted_invokeProxy)

theorem transmitted_prefix_witness:
  "(1::nat) \<le> length [Prim (Str ''folder/path'')]
   \<and> length [Prim (Str ''folder/path'')] = (1::nat)
   \<and> transmitted (snd (showItemInFolder bus [Prim (Str ''folder/path'')] start))
       = [Prim (Str ''folder/path'')]
   \<and> transmitted (snd (invokeProxy bus ''open-external'' 1 [Prim (Str ''folder/path'')] start))
       = [Prim (Str ''folder/path'')]"
proof -
  have h: "(1::nat) \<le> length [Prim (Str ''folder/path'')]" by simp
  show ?thesis
    using transmitted_prefix [OF h, of bus "''show-item-in-folder''" start]
      transmitted_prefix [OF h, of bus "''open-external''" start]
    by (simp add: showItemInFolder_def del: One_nat_def)
qed

text \<open>
  C3. The guard only truncates: the transmitted list is the prefix of the caller's list
  of length \<open>min (length args) n\<close>, never longer than \<open>n\<close>, and the caller's whole list
  when that is shorter than \<open>n\<close>.
\<close>

theorem transmitted_truncates:
  "transmitted (snd (sendProxy t c n as w)) = take (min (length as) n) as
   \<and> transmitted (snd (invokeProxy t c n as w)) = take (min (length as) n) as
   \<and> length (transmitted (snd (sendProxy t c n as w))) \<le> n
   \<and> length (transmitted (snd (invokeProxy t c n as w))) \<le> n
   \<and> (length as < n \<longrightarrow>
        transmitted (snd (sendProxy t c n as w)) = as
        \<and> transmitted (snd (invokeProxy t c n as w)) = as)"
  by (simp add: transmitted_sendProxy transmitted_invokeProxy min_def)

theorem transmitted_truncates_witness:
  "length [Prim (Str ''a'')] < (2::nat)
   \<and> transmitted (snd (sendProxy bus ''show-certificate-trust-dialog'' 2 [Prim (Str ''a'')] start))
       = [Prim (Str ''a'')]
   \<and> transmitted (snd (invokeProxy bus ''show-contextual-menu'' 2 [Prim (Str ''a'')] start))
       = [Prim (Str ''a'')]"
  using transmitted_truncates
      [of bus "''show-certificate-trust-dialog''" 2 "[Prim (Str ''a'')]" start]
    transmitted_truncates
      [of bus "''show-contextual-menu''" 2 "[Prim (Str ''a'')]" start]
  by simp

subsection \<open>Request-response proxies\<close>

text \<open>
  C4. The promise a proxy built by \<open>invokeProxy\<close> returns is the one the transport's
  \<open>invoke\<close> returned for the channel and the guarded arguments: when that resolves with
  a payload, the caller's promise resolves with the same payload.
\<close>

theorem invokeProxy_passes_result:
  "fst (invokeProxy t c n as w) = fst (invoke t c (take n as) (remote w))
   \<and> (fst (invoke t c (take n as) (remote w)) = Resolved v
        \<longrightarrow> fst (invokeProxy t c n as w) = Resolved v)"
  by (simp add: invokeProxy_unfold)

theorem invokeProxy_passes_result_witness:
  "fst (invoke bus ''is-window-focused'' (take 0 [Prim Null, Prim Null, Prim Null]) (remote start))
     = Resolved (Object [(''focused'', Prim (Boolean True))])
   \<and> fst (isWindowFocused bus [Prim Null, Prim Null, Prim Null] start)
     = Resolved (Object [(''focused'', Prim (Boolean True))])"
  using invokeProxy_passes_result
    [of bus "''is-window-focused''" 0 "[Prim Null, Prim Null, Prim Null]" start
        "Object [(''focused'', Prim (Boolean True))]"]
  by (simp add: isWindowFocused_def bus_def start_def)

text \<open>
  C5. When the transport's \<open>invoke\<close> fails, the promise the proxy returns fails with the
  same failure. The proxy has asked the transport once, and the state behind the
  transport is the one that single request left.
\<close>

theorem invokeProxy_passes_failure:
  assumes "fst (invoke t c (take n as) (remote w)) = Rejected e"
  shows "fst (invokeProxy t c n as w) = Rejected e
         \<and> calls (snd (invokeProxy t c n as w)) = calls w @ [Invoke c (take n as)]
         \<and> remote (snd (invokeProxy t c n as w)) = snd (invoke t c (take n as) (remote w))"
  using assms by (simp add: invokeProxy_unfold)

theorem invokeProxy_passes_failure_witness:
  "fst (invoke bus ''open-external'' (take 1 [Prim (Str ''https://example.org'')]) (remote start))
     = Rejected ''process disconnected''
   \<and> fst (openExternal bus [Prim (Str ''https://example.org'')] start)
     = Rejected ''process disconnected''
   \<and> calls (snd (openExternal bus [Prim (Str ''https://example.org'')] start))
     = [Invoke ''open-external'' [Prim (Str ''https://example.org'')]]"
proof -
  have h: "fst (invoke bus ''open-external'' (take 1 [Prim (Str ''https://example.org'')])
             (remote start)) = Rejected ''process disconnected''"
    by (simp add: bus_def)
  show ?thesis
    using h invokeProxy_passes_failure [OF h]
    by (simp add: openExternal_def start_def del: One_nat_def)
qed

subsection \<open>Fire-and-forget proxies\<close>


lemma sendProxy_call_unfold:
  "sendProxy_call sp c n as w =
     (case fst (sp c (take n as) (remote w)) of
        Normal r \<Rightarrow> Normal Undefined
      | Throw x \<Rightarrow> Throw x,
      w\<lparr>calls := calls w @ [Send c (take n as)],
        remote := snd (sp c (take n as) (remote w))\<rparr>)"
  by (simp add: sendProxy_call_def ipcRenderer_send_call_def guard_take Let_def
        split: prod.split completion.split)

lemma sendProxy_call_returning:
  "sendProxy_call (returning t) c n as w
     = (Normal (fst (sendProxy t c n as w)), snd (sendProxy t c n as w))"
  by (simp add: sendProxy_call_unfold sendProxy_unfold returning_def split: prod.split)

text \<open>
  C7 (as stated, refuted). The claim says the caller can never observe a failure of the
  transmission through the call. The closure has no \<open>try\<close> around \<open>send\<close>: under a
  \<open>send\<close> that throws on \<open>update-menu-state\<close>, the call of the proxy of that channel
  completes by throwing the same, not by returning \<open>undefined\<close>.
\<close>

theorem sendProxy_call_counterexample:
  "fst (sendProxy_call failing_send ''update-menu-state'' 1 [Prim Null] start)
     = Throw ''message not sent''
   \<and> fst (sendProxy_call failing_send ''update-menu-state'' 1 [Prim Null] start)
     \<noteq> Normal Undefined"
  by (simp add: sendProxy_call_unfold failing_send_def del: One_nat_def)

text \<open>
  C7 (amended). A call of a proxy built by \<open>sendProxy\<close> makes its one \<open>send\<close> and has no
  value of its own: when the transport's \<open>send\<close> returns, whatever it returns is dropped
  and the call returns \<open>undefined\<close>; when the transport's \<open>send\<close> throws, the call
  throws the same failure to the caller, unchanged.
\<close>

theorem sendProxy_call_completion:
  "calls (snd (sendProxy_call sp c n as w)) = calls w @ [Send c (take n as)]
   \<and> remote (snd (sendProxy_call sp c n as w)) = snd (sp c (take n as) (remote w))
   \<and> (fst (sp c (take n as) (remote w)) = Normal r
        \<longrightarrow> fst (sendProxy_call sp c n as w) = Normal Undefined)
   \<and> (fst (sp c (take n as) (remote w)) = Throw x
        \<longrightarrow> fst (sendProxy_call sp c n as w) = Throw x)"
  by (simp add: sendProxy_call_unfold)

theorem sendProxy_call_completion_witness:
  "fst (failing_send ''focus-window'' (take 0 [Prim Null]) (remote start)) = Normal ()
   \<and> fst (sendProxy_call failing_send ''focus-window'' 0 [Prim Null] start) = Normal Undefined
   \<and> calls (snd (sendProxy_call failing_send ''focus-window'' 0 [Prim Null] start))
       = [Send ''focus-window'' []]
   \<and> fst (failing_send ''show-item-in-folder'' (take 1 [Prim (Str ''folder/path'')])
            (remote start)) = Throw ''message not sent''
   \<and> fst (sendProxy_call failing_send ''show-item-in-folder'' 1 [Prim (Str ''folder/path'')] start)
       = Throw ''message not sent''"
proof -
  have h1: "fst (failing_send ''focus-window'' (take 0 [Prim Null]) (remote start)) = Normal ()"
    by (simp add: failing_send_def)
  have h2: "fst (failing_send ''show-item-in-folder'' (take 1 [Prim (Str ''folder/path'')])
              (remote start)) = Throw ''message not sent''"
    by (simp add: failing_send_def)
  show ?thesis
    using h1 h2
      sendProxy_call_completion
        [of failing_send "''focus-window''" 0 "[Prim Null]" start "()"]
      sendProxy_call_completion
        [of failing_send "''show-item-in-folder''" 1 "[Prim (Str ''folder/path'')]" start _
            "''message not sent''"]
    by (simp add: start_def del: One_nat_def)
qed

subsection \<open>The binding of a proxy\<close>

lemma calls_call_each_sendProxy:
  "calls (call_each (sendProxy t c n) ass w) = calls w @ map (\<lambda>as. Send c (take n as)) ass"
  by (induction ass arbitrary: w) (simp_all add: sendProxy_unfold)

lemma calls_call_each_invokeProxy:
  "calls (call_each (invokeProxy t c n) ass w) = calls w @ map (\<lambda>as. Invoke c (take n as)) ass"
  by (induction ass arbitrary: w) (simp_all add: invokeProxy_unfold)

text \<open>
  C8. A proxy keeps the channel and the arity it was built with: however many times the
  callable is called and with whatever arguments, each call transmits on the channel
  \<open>c\<close> the first \<open>n\<close> of its arguments, in the order of the calls.
\<close>

theorem proxy_binding_fixed:
  "calls (call_each (sendProxy t c n) ass w) = calls w @ map (\<lambda>as. Send c (take n as)) ass
   \<and> calls (call_each (invokeProxy t c n) ass w)
       = calls w @ map (\<lambda>as. Invoke c (take n as)) ass
   \<and> map ipc_channel (calls_since w (call_each (sendProxy t c n) ass w))
       = replicate (length ass) c
   \<and> map ipc_channel (calls_since w (call_each (invokeProxy t c n) ass w))
       = replicate (length ass) c"
  by (simp add: calls_call_each_sendProxy calls_call_each_invokeProxy calls_since_def
        comp_def map_replicate_const)

subsection \<open>The blocking signal\<close>

text \<open>
  C9. \<open>sendWillQuitSync\<close> makes one transport call, \<open>sendSync\<close> on the channel
  \<open>will-quit\<close> with no argument, and neither a \<open>send\<close> nor an \<open>invoke\<close>. The world it
  returns in is the one the transport's \<open>sendSync\<close> returned in, after the receiver's
  reply.
\<close>

theorem sendWillQuitSync_delegates:
  "calls (snd (sendWillQuitSync t w)) = calls w @ [SendSync ''will-quit'' []]
   \<and> remote (snd (sendWillQuitSync t w)) = snd (sendSync t ''will-quit'' [] (remote w))
   \<and> filter is_Send (calls_since w (snd (sendWillQuitSync t w))) = []
   \<and> filter is_Invoke (calls_since w (snd (sendWillQuitSync t w))) = []
   \<and> filter is_SendSync (calls_since w (snd (sendWillQuitSync t w)))
       = [SendSync ''will-quit'' []]
   \<and> fst (sendWillQuitSync t w) = Undefined"
  by (simp add: sendWillQuitSync_def ipcRenderer_sendSync_def calls_since_def
        split: prod.split)

subsection \<open>The error payload\<close>

lemma reportUncaughtException_calls:
  "calls (snd (reportUncaughtException t e w))
     = calls w @ [Send ''uncaught-exception'' [getIpcFriendlyError e]]"
  by (simp add: reportUncaughtException_def reportUncaughtException_proxy_def
        sendProxy_unfold del: One_nat_def)

lemma sendErrorReport_calls:
  "calls (snd (sendErrorReport t e extra nonFatal w))
     = calls w @ [Send ''send-error-report''
                    [getIpcFriendlyError e, extra, Prim (Boolean nonFatal)]]"
  by (simp add: sendErrorReport_def sendErrorReport_proxy_def sendProxy_unfold)

text \<open>
  C10. In the payload of \<open>getIpcFriendlyError\<close>, a falsy \<open>name\<close> is replaced by its own
  string form, whereas a falsy \<open>message\<close> is replaced by the string form of the whole
  error. The payload is a plain object with the properties \<open>message\<close>, \<open>name\<close> and
  \<open>stack\<close>, not an \<open>Error\<close> object, and it is what \<open>reportUncaughtException\<close> and
  \<open>sendErrorReport\<close> send as first argument.
\<close>

theorem getIpcFriendlyError_payload:
  "(\<not> truthy (name e) \<longrightarrow>
      get_field (getIpcFriendlyError e) ''name'' = Some (Prim (Str (ToString (name e)))))
   \<and> (\<not> truthy (message e) \<longrightarrow>
      get_field (getIpcFriendlyError e) ''message'' = Some (Prim (Str (Error_toString e))))
   \<and> own_keys (getIpcFriendlyError e) = [''message'', ''name'', ''stack'']
   \<and> is_plain_object (getIpcFriendlyError e)
   \<and> getIpcFriendlyError e \<noteq> ErrorObject e'
   \<and> calls (snd (reportUncaughtException t e w))
       = calls w @ [Send ''uncaught-exception'' [getIpcFriendlyError e]]
   \<and> calls (snd (sendErrorReport t e extra nonFatal w))
       = calls w @ [Send ''send-error-report''
                      [getIpcFriendlyError e, extra, Prim (Boolean nonFatal)]]"
  by (simp add: reportUncaughtException_calls sendErrorReport_calls)
     (simp add: getIpcFriendlyError_def js_or_def)

theorem getIpcFriendlyError_payload_witness:
  "\<not> truthy (name \<lparr>message = Str [], name = Undefined, stack = Undefined\<rparr>)
   \<and> \<not> truthy (message \<lparr>message = Str [], name = Undefined, stack = Undefined\<rparr>)
   \<and> get_field (getIpcFriendlyError \<lparr>message = Str [], name = Undefined, stack = Undefined\<rparr>)
        ''name'' = Some (Prim (Str ''undefined''))
   \<and> get_field (getIpcFriendlyError \<lparr>message = Str [], name = Undefined, stack = Undefined\<rparr>)
        ''message'' = Some (Prim (Str ''Error''))
   \<and> \<not> truthy (name \<lparr>message = Str ''boom'', name = Str [], stack = Undefined\<rparr>)
   \<and> get_field (getIpcFriendlyError \<lparr>message = Str ''boom'', name = Str [], stack = Undefined\<rparr>)
        ''name'' = Some (Prim (Str []))"
proof -
  let ?e = "\<lparr>message = Str [], name = Undefined, stack = Undefined\<rparr>"
  let ?f = "\<lparr>message = Str ''boom'', name = Str [], stack = Undefined\<rparr>"
  have "Error_toString ?e = ''Error''"
    by (simp add: Error_toString_def)
  moreover have "\<not> truthy (name ?e)" "\<not> truthy (message ?e)" "\<not> truthy (name ?f)"
    by simp_all
  moreover have "ToString (name ?e) = ''undefined''" "ToString (name ?f) = []"
    by simp_all
  ultimately show ?thesis
    using getIpcFriendlyError_payload [of ?e] getIpcFriendlyError_payload [of ?f]
    by presburger
qed

end
